theory Spec2Isabelle
  imports Main
begin

section \<open>Data model\<close>

text \<open>
  The lifecycle controller of \<^verbatim>\<open>src/TextAnnotator.jsx\<close> is a React component: its own
  fields are \<^verbatim>\<open>this.state\<close>, and it drives three collaborators (the highlighter, the
  selection handler and the relations layer) and the callbacks of the host application
  (\<^verbatim>\<open>this.props\<close>). The embedding passes a \<open>world\<close> through every handler: the
  component state, the state of the three collaborators, the queue of animation-frame
  tasks and the log of every call the controller issues, in program order.

  JavaScript objects have an identity besides their contents. An annotation therefore
  carries an object identity \<open>oid\<close>; \<^verbatim>\<open>clone()\<close> returns the same contents under a
  freshly allocated identity.
\<close>

record body =
  draft :: "bool option"
  content :: "(string \<times> string) list"

record annotation =
  oid :: nat
  ann_id :: string
  bodies :: "body list"
  target :: string
  ann_readOnly :: bool
  isSelection :: bool

record relation =
  rel_annotation :: annotation
  rel_from :: string
  rel_to :: string

datatype element = Span string

record select_evt =
  selection :: "annotation option"
  element :: "element option"

record config =
  cfg_readOnly :: bool
  cfg_widgets :: "string list"
  cfg_disableEditor :: bool

record ctrl_state =
  selectedAnnotation :: "annotation option"
  selectedDOMElement :: "element option"
  selectedRelation :: "relation option"
  readOnly :: bool
  widgets :: "string list"
  editorDisabled :: bool

record selection_handler =
  sh_enabled :: bool
  sh_readOnly :: bool
  sh_pending :: bool

record highlighter =
  hl_annotations :: "annotation list"

record relations_layer =
  rl_relations :: "relation list"
  rl_readOnly :: bool
  rl_drawing :: bool
  rl_current :: bool

datatype host_method = MethodCreated | MethodUpdated

datatype host_arg = ArgNull | ArgAnnotation annotation | ArgOverrideRelationId string

datatype host_call =
    OnAnnotationSelected annotation "element option"
  | OnAnnotationCreated annotation host_arg
  | OnAnnotationUpdated annotation host_arg
  | OnAnnotationDeleted annotation
  | OnCancelSelected "annotation option"

datatype frame_task = OverrideTargetAnnotation annotation "annotation option"

datatype event =
    SetState ctrl_state
  | ShSetEnabled bool
  | ShSetReadOnly bool
  | ShClearSelection
  | HlAddOrUpdateAnnotation annotation "annotation option"
  | HlRemoveAnnotation annotation
  | HlOverrideId string string
  | RlAddOrUpdateRelation relation relation
  | RlRemoveRelation relation
  | RlDestroyConnectionsFor annotation
  | RlOverrideTargetAnnotation annotation "annotation option"
  | RlOverrideRelationId string string
  | RlResetDrawing
  | RlSetReadOnly bool
  | RlStartDrawing
  | RlStopDrawing
  | RequestAnimationFrame frame_task
  | Host host_call

record world =
  state :: ctrl_state
  selectionHandler :: selection_handler
  highlighter :: highlighter
  relationsLayer :: relations_layer
  noselect :: bool
  frames :: "frame_task list"
  next_oid :: nat
  trace :: "event list"

section \<open>Annotation objects\<close>

text \<open>
  Modelled from the spec: the annotation class of the client core library is not under
  \<^verbatim>\<open>src/\<close>. \<^verbatim>\<open>clone()\<close> copies the contents into a new object, \<^verbatim>\<open>clone({body})\<close>
  replaces the bodies in the copy, \<^verbatim>\<open>toAnnotation()\<close> turns a selection into an annotation
  object (a new object that is no longer a selection), and \<^verbatim>\<open>isEqual\<close> compares contents,
  not object identity.
\<close>

definition clone :: "annotation \<Rightarrow> world \<Rightarrow> annotation \<times> world" where
  "clone a w = (a\<lparr>oid := next_oid w\<rparr>, w\<lparr>next_oid := Suc (next_oid w)\<rparr>)"

definition clone_with_body :: "annotation \<Rightarrow> body list \<Rightarrow> world \<Rightarrow> annotation \<times> world" where
  "clone_with_body a bs w = (a\<lparr>oid := next_oid w, bodies := bs\<rparr>, w\<lparr>next_oid := Suc (next_oid w)\<rparr>)"

definition toAnnotation :: "annotation \<Rightarrow> world \<Rightarrow> annotation \<times> world" where
  "toAnnotation a w = (a\<lparr>oid := next_oid w, isSelection := False\<rparr>, w\<lparr>next_oid := Suc (next_oid w)\<rparr>)"

definition isEqual :: "annotation \<Rightarrow> annotation \<Rightarrow> bool" where
  "isEqual a b = (a\<lparr>oid := 0\<rparr> = b\<lparr>oid := 0\<rparr>)"

definition first :: "'a list \<Rightarrow> 'a option" where
  "first xs = (case xs of [] \<Rightarrow> None | x # _ \<Rightarrow> Some x)"

section \<open>Collaborators\<close>

subsection \<open>Highlight Engine\<close>

text \<open>
  Modelled from the spec: \<^verbatim>\<open>src/highlighter/Highlighter\<close> is not under \<^verbatim>\<open>src/\<close>. The
  engine owns the mapping from annotation identity to rendered spans: it holds the
  annotations in order, every annotation it holds is rendered as one span, and a span
  carries the annotation it renders. \<open>addOrUpdateAnnotation\<close> is add-or-replace keyed by id
  (the id of \<open>previous\<close> when that is given, the entry being replaced in place),
  \<open>removeAnnotation\<close> removes by id and does nothing for an id the engine does not hold,
  \<open>overrideId\<close> gives the entry with the old id the new id and returns the updated
  annotation, or nothing when no entry has the old id.
\<close>

definition hl_present :: "string \<Rightarrow> highlighter \<Rightarrow> bool" where
  "hl_present i h = (i \<in> ann_id ` set (hl_annotations h))"

definition hl_addOrUpdateAnnotation :: "annotation \<Rightarrow> annotation option \<Rightarrow> highlighter \<Rightarrow> highlighter" where
  "hl_addOrUpdateAnnotation a previous h =
     (let key = (case previous of Some p \<Rightarrow> ann_id p | None \<Rightarrow> ann_id a) in
      if hl_present key h
      then h\<lparr>hl_annotations := map (\<lambda>x. if ann_id x = key then a else x) (hl_annotations h)\<rparr>
      else h\<lparr>hl_annotations := hl_annotations h @ [a]\<rparr>)"

definition hl_removeAnnotation :: "annotation \<Rightarrow> highlighter \<Rightarrow> highlighter" where
  "hl_removeAnnotation a h = h\<lparr>hl_annotations := filter (\<lambda>x. ann_id x \<noteq> ann_id a) (hl_annotations h)\<rparr>"

definition hl_overrideId :: "string \<Rightarrow> string \<Rightarrow> highlighter \<Rightarrow> annotation option \<times> highlighter" where
  "hl_overrideId i forcedId h =
     (map_option (\<lambda>x. x\<lparr>ann_id := forcedId\<rparr>) (find (\<lambda>x. ann_id x = i) (hl_annotations h)),
      h\<lparr>hl_annotations := map (\<lambda>x. if ann_id x = i then x\<lparr>ann_id := forcedId\<rparr> else x) (hl_annotations h)\<rparr>)"

definition hl_findAnnotationSpans :: "annotation \<Rightarrow> highlighter \<Rightarrow> (element \<times> annotation) list" where
  "hl_findAnnotationSpans a h =
     map (\<lambda>x. (Span (ann_id x), x)) (filter (\<lambda>x. ann_id x = ann_id a) (hl_annotations h))"

definition hl_getAllAnnotations :: "highlighter \<Rightarrow> annotation list" where
  "hl_getAllAnnotations h = hl_annotations h"

subsection \<open>Relation Layer\<close>

text \<open>
  Modelled from the spec: \<^verbatim>\<open>src/relations/RelationsLayer\<close> is not under \<^verbatim>\<open>src/\<close>. The
  layer holds the relations in order, a read-only flag, the drawing sub-mode and whether a
  connector is being drawn. A relation's identity is the id of the annotation it wraps.
  \<open>addOrUpdateRelation\<close> is add-or-replace keyed by id with the same replace-in-place
  contract as the engine, \<open>destroyConnectionsFor\<close> destroys every relation one of whose
  endpoints is the annotation's id, \<open>overrideTargetAnnotation\<close> rewrites every endpoint
  reference equal to the original annotation's id to the id of the updated annotation (and
  does nothing when there is no updated annotation), \<open>resetDrawing\<close> drops the connector
  being drawn.
\<close>

definition rel_id :: "relation \<Rightarrow> string" where
  "rel_id r = ann_id (rel_annotation r)"

definition references :: "string \<Rightarrow> relation \<Rightarrow> bool" where
  "references i r = (rel_from r = i \<or> rel_to r = i)"

definition rl_addOrUpdateRelation :: "relation \<Rightarrow> relation \<Rightarrow> relations_layer \<Rightarrow> relations_layer" where
  "rl_addOrUpdateRelation r previous l =
     (if rel_id previous \<in> rel_id ` set (rl_relations l)
      then l\<lparr>rl_relations := map (\<lambda>x. if rel_id x = rel_id previous then r else x) (rl_relations l)\<rparr>
      else if rel_id r \<in> rel_id ` set (rl_relations l)
      then l\<lparr>rl_relations := map (\<lambda>x. if rel_id x = rel_id r then r else x) (rl_relations l)\<rparr>
      else l\<lparr>rl_relations := rl_relations l @ [r]\<rparr>)"

definition rl_removeRelation :: "relation \<Rightarrow> relations_layer \<Rightarrow> relations_layer" where
  "rl_removeRelation r l = l\<lparr>rl_relations := filter (\<lambda>x. rel_id x \<noteq> rel_id r) (rl_relations l)\<rparr>"

definition rl_destroyConnectionsFor :: "annotation \<Rightarrow> relations_layer \<Rightarrow> relations_layer" where
  "rl_destroyConnectionsFor a l =
     l\<lparr>rl_relations := filter (\<lambda>r. \<not> references (ann_id a) r) (rl_relations l)\<rparr>"

definition retarget :: "string \<Rightarrow> string \<Rightarrow> relation \<Rightarrow> relation" where
  "retarget i j r =
     r\<lparr>rel_from := (if rel_from r = i then j else rel_from r),
       rel_to := (if rel_to r = i then j else rel_to r)\<rparr>"

definition rl_overrideTargetAnnotation :: "annotation \<Rightarrow> annotation option \<Rightarrow> relations_layer \<Rightarrow> relations_layer" where
  "rl_overrideTargetAnnotation original updated l =
     (case updated of
        None \<Rightarrow> l
      | Some u \<Rightarrow> l\<lparr>rl_relations := map (retarget (ann_id original) (ann_id u)) (rl_relations l)\<rparr>)"

definition rl_overrideRelationId :: "string \<Rightarrow> string \<Rightarrow> relations_layer \<Rightarrow> relations_layer" where
  "rl_overrideRelationId originalId forcedId l =
     l\<lparr>rl_relations :=
         map (\<lambda>r. if rel_id r = originalId
                  then r\<lparr>rel_annotation := (rel_annotation r)\<lparr>ann_id := forcedId\<rparr>\<rparr> else r)
             (rl_relations l)\<rparr>"

definition rl_getAllRelations :: "relations_layer \<Rightarrow> annotation list" where
  "rl_getAllRelations l = map rel_annotation (rl_relations l)"

section \<open>Calls issued by the controller\<close>

text \<open>
  Each call applies the collaborator's operation and appends the call to the log; a host
  callback only appends to the log, and a \<^verbatim>\<open>null\<close> or missing argument is \<open>None\<close> or
  \<open>ArgNull\<close>.

  \<^verbatim>\<open>setState(update, callback)\<close> is modelled as React applies it outside a batch: the
  update takes effect at the call and the completion callback runs right after it, before
  the statement that follows the call. The log therefore lists the calls in the order the
  source issues them, and each \<open>SetState\<close> entry carries the state committed by that call.
  (Inside a batch React would defer the commits to the end of the handler; the calls to
  the collaborators and to the host keep the order logged here.)
\<close>

definition emit :: "event \<Rightarrow> world \<Rightarrow> world" where
  "emit e w = w\<lparr>trace := trace w @ [e]\<rparr>"

definition setState :: "(ctrl_state \<Rightarrow> ctrl_state) \<Rightarrow> world \<Rightarrow> world" where
  "setState f w = emit (SetState (f (state w))) (w\<lparr>state := f (state w)\<rparr>)"

definition props :: "host_call \<Rightarrow> world \<Rightarrow> world" where
  "props c w = emit (Host c) w"

definition props_method :: "host_method \<Rightarrow> annotation \<Rightarrow> host_arg \<Rightarrow> host_call" where
  "props_method m a x = (case m of MethodCreated \<Rightarrow> OnAnnotationCreated a x | MethodUpdated \<Rightarrow> OnAnnotationUpdated a x)"

text \<open>
  Modelled from the spec: \<^verbatim>\<open>src/selection/SelectionHandler\<close> is not under \<^verbatim>\<open>src/\<close>. The
  controller assigns its \<open>enabled\<close> and \<open>readOnly\<close> fields; \<open>clearSelection\<close> drops the
  pending raw selection.
\<close>

definition selectionHandler_set_enabled :: "bool \<Rightarrow> world \<Rightarrow> world" where
  "selectionHandler_set_enabled b w =
     emit (ShSetEnabled b) (w\<lparr>selectionHandler := (selectionHandler w)\<lparr>sh_enabled := b\<rparr>\<rparr>)"

definition selectionHandler_set_readOnly :: "bool \<Rightarrow> world \<Rightarrow> world" where
  "selectionHandler_set_readOnly b w =
     emit (ShSetReadOnly b) (w\<lparr>selectionHandler := (selectionHandler w)\<lparr>sh_readOnly := b\<rparr>\<rparr>)"

definition selectionHandler_clearSelection :: "world \<Rightarrow> world" where
  "selectionHandler_clearSelection w =
     emit ShClearSelection (w\<lparr>selectionHandler := (selectionHandler w)\<lparr>sh_pending := False\<rparr>\<rparr>)"

definition highlighter_addOrUpdateAnnotation :: "annotation \<Rightarrow> annotation option \<Rightarrow> world \<Rightarrow> world" where
  "highlighter_addOrUpdateAnnotation a previous w =
     emit (HlAddOrUpdateAnnotation a previous)
       (w\<lparr>highlighter := hl_addOrUpdateAnnotation a previous (highlighter w)\<rparr>)"

definition highlighter_removeAnnotation :: "annotation \<Rightarrow> world \<Rightarrow> world" where
  "highlighter_removeAnnotation a w =
     emit (HlRemoveAnnotation a) (w\<lparr>highlighter := hl_removeAnnotation a (highlighter w)\<rparr>)"

definition highlighter_overrideId :: "string \<Rightarrow> string \<Rightarrow> world \<Rightarrow> annotation option \<times> world" where
  "highlighter_overrideId i forcedId w =
     (fst (hl_overrideId i forcedId (highlighter w)),
      emit (HlOverrideId i forcedId) (w\<lparr>highlighter := snd (hl_overrideId i forcedId (highlighter w))\<rparr>))"

definition relationsLayer_addOrUpdateRelation :: "relation \<Rightarrow> relation \<Rightarrow> world \<Rightarrow> world" where
  "relationsLayer_addOrUpdateRelation r previous w =
     emit (RlAddOrUpdateRelation r previous)
       (w\<lparr>relationsLayer := rl_addOrUpdateRelation r previous (relationsLayer w)\<rparr>)"

definition relationsLayer_removeRelation :: "relation \<Rightarrow> world \<Rightarrow> world" where
  "relationsLayer_removeRelation r w =
     emit (RlRemoveRelation r) (w\<lparr>relationsLayer := rl_removeRelation r (relationsLayer w)\<rparr>)"

definition relationsLayer_destroyConnectionsFor :: "annotation \<Rightarrow> world \<Rightarrow> world" where
  "relationsLayer_destroyConnectionsFor a w =
     emit (RlDestroyConnectionsFor a)
       (w\<lparr>relationsLayer := rl_destroyConnectionsFor a (relationsLayer w)\<rparr>)"

definition relationsLayer_overrideTargetAnnotation :: "annotation \<Rightarrow> annotation option \<Rightarrow> world \<Rightarrow> world" where
  "relationsLayer_overrideTargetAnnotation original updated w =
     emit (RlOverrideTargetAnnotation original updated)
       (w\<lparr>relationsLayer := rl_overrideTargetAnnotation original updated (relationsLayer w)\<rparr>)"

definition relationsLayer_overrideRelationId :: "string \<Rightarrow> string \<Rightarrow> world \<Rightarrow> world" where
  "relationsLayer_overrideRelationId originalId forcedId w =
     emit (RlOverrideRelationId originalId forcedId)
       (w\<lparr>relationsLayer := rl_overrideRelationId originalId forcedId (relationsLayer w)\<rparr>)"

definition relationsLayer_resetDrawing :: "world \<Rightarrow> world" where
  "relationsLayer_resetDrawing w =
     emit RlResetDrawing (w\<lparr>relationsLayer := (relationsLayer w)\<lparr>rl_current := False\<rparr>\<rparr>)"

definition relationsLayer_set_readOnly :: "bool \<Rightarrow> world \<Rightarrow> world" where
  "relationsLayer_set_readOnly b w =
     emit (RlSetReadOnly b) (w\<lparr>relationsLayer := (relationsLayer w)\<lparr>rl_readOnly := b\<rparr>\<rparr>)"

definition relationsLayer_startDrawing :: "world \<Rightarrow> world" where
  "relationsLayer_startDrawing w =
     emit RlStartDrawing (w\<lparr>relationsLayer := (relationsLayer w)\<lparr>rl_drawing := True\<rparr>\<rparr>)"

definition relationsLayer_stopDrawing :: "world \<Rightarrow> world" where
  "relationsLayer_stopDrawing w =
     emit RlStopDrawing
       (w\<lparr>relationsLayer := (relationsLayer w)\<lparr>rl_drawing := False, rl_current := False\<rparr>\<rparr>)"

definition requestAnimationFrame :: "frame_task \<Rightarrow> world \<Rightarrow> world" where
  "requestAnimationFrame t w = emit (RequestAnimationFrame t) (w\<lparr>frames := frames w @ [t]\<rparr>)"

section \<open>The controller\<close>

text \<open>
  The constructor and \<^verbatim>\<open>componentDidMount\<close>: nothing is selected and the three flags
  come from the configuration. The collaborators start as the specification describes
  normal mode: selection enabled, no annotation and no relation held, the Relation Layer
  read-only and not drawing.
\<close>

definition init_world :: "config \<Rightarrow> world" where
  "init_world c =
     \<lparr>state = \<lparr>selectedAnnotation = None, selectedDOMElement = None, selectedRelation = None,
               readOnly = cfg_readOnly c, widgets = cfg_widgets c,
               editorDisabled = cfg_disableEditor c\<rparr>,
      selectionHandler = \<lparr>sh_enabled = True, sh_readOnly = cfg_readOnly c, sh_pending = False\<rparr>,
      highlighter = \<lparr>hl_annotations = []\<rparr>,
      relationsLayer = \<lparr>rl_relations = [], rl_readOnly = True, rl_drawing = False, rl_current = False\<rparr>,
      noselect = False, frames = [], next_oid = 0, trace = []\<rparr>"

definition clearState :: "world \<Rightarrow> world" where
  "clearState w =
     selectionHandler_set_enabled True
       (setState (\<lambda>s. s\<lparr>selectedAnnotation := None, selectedDOMElement := None\<rparr>) w)"

definition onChanged :: "world \<Rightarrow> world" where
  "onChanged w = selectionHandler_set_enabled False w"

definition onCreateOrUpdateAnnotation :: "host_method \<Rightarrow> annotation \<Rightarrow> annotation option \<Rightarrow> world \<Rightarrow> world" where
  "onCreateOrUpdateAnnotation method a previous w =
     (case clone a w of (updatedAnnotation, w1) \<Rightarrow>
        let w2 = highlighter_addOrUpdateAnnotation updatedAnnotation previous w1 in
        case (case previous of
                Some p \<Rightarrow> (case clone p w2 of (c, w') \<Rightarrow> (ArgAnnotation c, w'))
              | None \<Rightarrow> (ArgNull, w2)) of
          (prev, w3) \<Rightarrow>
            let w4 = props (props_method method updatedAnnotation prev) w3 in
            setState (\<lambda>s. s\<lparr>selectedAnnotation := Some updatedAnnotation,
                             selectedDOMElement :=
                               map_option fst (first (hl_findAnnotationSpans updatedAnnotation (highlighter w4)))\<rparr>)
              w4)"

definition onNormalSelect :: "select_evt \<Rightarrow> world \<Rightarrow> world" where
  "onNormalSelect evt w =
     (case selection evt of
        Some sel \<Rightarrow>
          let w1 = setState (\<lambda>s. s\<lparr>selectedAnnotation := None, selectedDOMElement := None\<rparr>) w;
              w2 = setState (\<lambda>s. s\<lparr>selectedAnnotation := Some sel, selectedDOMElement := element evt\<rparr>) w1
          in if \<not> isSelection sel
             then (case clone sel w2 of (c, w3) \<Rightarrow> props (OnAnnotationSelected c (element evt)) w3)
             else w2
      | None \<Rightarrow> clearState w)"

definition undraft :: "annotation \<Rightarrow> world \<Rightarrow> annotation \<times> world" where
  "undraft a w = clone_with_body a (map (\<lambda>b. b\<lparr>draft := None\<rparr>) (bodies a)) w"

definition onHeadlessSelect :: "select_evt \<Rightarrow> world \<Rightarrow> world" where
  "onHeadlessSelect evt w =
     (case selection evt of
        Some sel \<Rightarrow>
          let w1 = setState (\<lambda>s. s\<lparr>selectedAnnotation := None, selectedDOMElement := None\<rparr>) w;
              w2 = setState (\<lambda>s. s\<lparr>selectedAnnotation := Some sel, selectedDOMElement := element evt\<rparr>) w1
          in if \<not> isSelection sel
             then (case clone sel w2 of (c, w3) \<Rightarrow> props (OnAnnotationSelected c (element evt)) w3)
             else (case undraft sel w2 of (u, w3) \<Rightarrow>
                     case toAnnotation u w3 of (a, w4) \<Rightarrow>
                       onCreateOrUpdateAnnotation MethodCreated a None w4)
      | None \<Rightarrow> clearState w)"

definition handleSelect :: "select_evt \<Rightarrow> world \<Rightarrow> world" where
  "handleSelect evt w =
     (if editorDisabled (state w) then onHeadlessSelect evt w else onNormalSelect evt w)"

definition updateDependentRelations :: "annotation \<Rightarrow> annotation option \<Rightarrow> world \<Rightarrow> world" where
  "updateDependentRelations originalAnnotation updatedAnnotation w =
     requestAnimationFrame (OverrideTargetAnnotation originalAnnotation updatedAnnotation) w"

definition swapId :: "annotation \<Rightarrow> string \<Rightarrow> world \<Rightarrow> world" where
  "swapId originalAnnotation forcedId w =
     (case highlighter_overrideId (ann_id originalAnnotation) forcedId w of
        (updated, w1) \<Rightarrow> updateDependentRelations originalAnnotation updated w1)"

definition overrideAnnotationId :: "annotation \<Rightarrow> string \<Rightarrow> world \<Rightarrow> world" where
  "overrideAnnotationId originalAnnotation forcedId w =
     (if selectedAnnotation (state w) \<noteq> None \<or> selectedRelation (state w) \<noteq> None
      then swapId originalAnnotation forcedId
             (setState (\<lambda>s. s\<lparr>selectedAnnotation := None, selectedRelation := None\<rparr>)
                (relationsLayer_resetDrawing w))
      else swapId originalAnnotation forcedId w)"

definition overrideRelationId :: "string \<Rightarrow> string \<Rightarrow> world \<Rightarrow> world" where
  "overrideRelationId originalId forcedId w =
     (if selectedRelation (state w) \<noteq> None
      then relationsLayer_overrideRelationId originalId forcedId
             (setState (\<lambda>s. s\<lparr>selectedRelation := None\<rparr>) w)
      else relationsLayer_overrideRelationId originalId forcedId w)"

definition onDeleteAnnotation :: "annotation \<Rightarrow> world \<Rightarrow> world" where
  "onDeleteAnnotation a w =
     props (OnAnnotationDeleted a)
       (highlighter_removeAnnotation a
          (selectionHandler_clearSelection
             (clearState
                (relationsLayer_destroyConnectionsFor a w))))"

definition onCancelAnnotation :: "annotation option \<Rightarrow> world \<Rightarrow> world" where
  "onCancelAnnotation a w =
     props (OnCancelSelected a) (selectionHandler_clearSelection (clearState w))"

definition handleEscape :: "nat \<Rightarrow> world \<Rightarrow> world" where
  "handleEscape which w = (if which = 27 then onCancelAnnotation None w else w)"

definition closeRelationsEditor :: "world \<Rightarrow> world" where
  "closeRelationsEditor w =
     relationsLayer_resetDrawing (setState (\<lambda>s. s\<lparr>selectedRelation := None\<rparr>) w)"

definition onEditRelation :: "relation \<Rightarrow> world \<Rightarrow> world" where
  "onEditRelation r w = setState (\<lambda>s. s\<lparr>selectedRelation := Some r\<rparr>) w"

definition onCreateOrUpdateRelation :: "relation \<Rightarrow> relation \<Rightarrow> world \<Rightarrow> world" where
  "onCreateOrUpdateRelation r previous w =
     (let w1 = closeRelationsEditor (relationsLayer_addOrUpdateRelation r previous w);
          isNew = (length (bodies (rel_annotation previous)) = 0)
      in if isNew
         then (case clone (rel_annotation r) w1 of
                 (c, w2) \<Rightarrow>
                   props (OnAnnotationCreated c (ArgOverrideRelationId (ann_id (rel_annotation r)))) w2)
         else (case clone (rel_annotation r) w1 of
                 (c, w2) \<Rightarrow>
                   case clone (rel_annotation previous) w2 of
                     (p, w3) \<Rightarrow> props (OnAnnotationUpdated c (ArgAnnotation p)) w3))"

definition onDeleteRelation :: "relation \<Rightarrow> world \<Rightarrow> world" where
  "onDeleteRelation r w =
     props (OnAnnotationDeleted (rel_annotation r))
       (closeRelationsEditor (relationsLayer_removeRelation r w))"

text \<open>
  The second argument of \<open>onAnnotationCreated\<close> on the relation path is the closure
  \<^verbatim>\<open>this.overrideRelationId(relation.annotation.id)\<close>; the host calls it later with the
  permanent id, which runs \<open>overrideRelationId\<close> on the original id. The other arguments
  are no functions.
\<close>

definition call_idOverrideFn :: "host_arg \<Rightarrow> string \<Rightarrow> world \<Rightarrow> world" where
  "call_idOverrideFn x forcedId w =
     (case x of
        ArgOverrideRelationId originalId \<Rightarrow> overrideRelationId originalId forcedId w
      | _ \<Rightarrow> w)"

definition addAnnotation :: "annotation \<Rightarrow> world \<Rightarrow> world" where
  "addAnnotation a w =
     (case clone a w of (c, w1) \<Rightarrow> highlighter_addOrUpdateAnnotation c None w1)"

definition get_disableSelect :: "world \<Rightarrow> bool" where
  "get_disableSelect w = (\<not> sh_enabled (selectionHandler w))"

definition set_disableSelect :: "bool \<Rightarrow> world \<Rightarrow> world" where
  "set_disableSelect disable w =
     selectionHandler_set_enabled (\<not> disable) (w\<lparr>noselect := disable\<rparr>)"

fun clone_all :: "annotation list \<Rightarrow> world \<Rightarrow> annotation list \<times> world" where
  "clone_all [] w = ([], w)"
| "clone_all (a # as) w =
     (case clone a w of (c, w1) \<Rightarrow> case clone_all as w1 of (cs, w2) \<Rightarrow> (c # cs, w2))"

definition getAnnotations :: "world \<Rightarrow> annotation list \<times> world" where
  "getAnnotations w =
     clone_all (hl_getAllAnnotations (highlighter w) @ rl_getAllRelations (relationsLayer w)) w"

definition removeAnnotation :: "annotation \<Rightarrow> world \<Rightarrow> world" where
  "removeAnnotation a w =
     (let w1 = highlighter_removeAnnotation a w in
      case selectedAnnotation (state w1) of
        Some s \<Rightarrow> if isEqual a s then clearState w1 else w1
      | None \<Rightarrow> w1)"

definition selectAnnotation :: "annotation option \<Rightarrow> world \<Rightarrow> world" where
  "selectAnnotation arg w =
     (let w1 = setState (\<lambda>s. s\<lparr>selectedAnnotation := None, selectedDOMElement := None\<rparr>) w in
      case arg of
        Some a \<Rightarrow>
          (case hl_findAnnotationSpans a (highlighter w1) of
             sp # _ \<Rightarrow>
               setState (\<lambda>s. s\<lparr>selectedAnnotation := Some (snd sp),
                                selectedDOMElement := Some (fst sp)\<rparr>) w1
           | [] \<Rightarrow> w1)
      | None \<Rightarrow> w1)"

definition setMode :: "string \<Rightarrow> world \<Rightarrow> world" where
  "setMode mode w =
     (if mode = ''RELATIONS''
      then relationsLayer_startDrawing
             (relationsLayer_set_readOnly False
                (selectionHandler_set_enabled False (clearState w)))
      else relationsLayer_stopDrawing
             (relationsLayer_set_readOnly True
                (selectionHandler_set_enabled True
                   (setState (\<lambda>s. s\<lparr>selectedRelation := None\<rparr>) w))))"

definition set_readOnly :: "bool \<Rightarrow> world \<Rightarrow> world" where
  "set_readOnly b w = setState (\<lambda>s. s\<lparr>readOnly := b\<rparr>) (selectionHandler_set_readOnly b w)"

definition set_widgets :: "string list \<Rightarrow> world \<Rightarrow> world" where
  "set_widgets ws w = setState (\<lambda>s. s\<lparr>widgets := ws\<rparr>) w"

definition set_disableEditor :: "bool \<Rightarrow> world \<Rightarrow> world" where
  "set_disableEditor disabled w = setState (\<lambda>s. s\<lparr>editorDisabled := disabled\<rparr>) w"

text \<open>
  \<^verbatim>\<open>render\<close>: the popups open only outside headless mode; inside the open fragment the
  annotation editor is rendered when an annotation is selected and the relation editor
  when a relation is selected.
\<close>

definition editor_open :: "ctrl_state \<Rightarrow> bool" where
  "editor_open s =
     ((selectedAnnotation s \<noteq> None \<or> selectedRelation s \<noteq> None) \<and> \<not> editorDisabled s)"

definition annotation_editor_rendered :: "ctrl_state \<Rightarrow> bool" where
  "annotation_editor_rendered s = (editor_open s \<and> selectedAnnotation s \<noteq> None)"

definition relation_editor_rendered :: "ctrl_state \<Rightarrow> bool" where
  "relation_editor_rendered s = (editor_open s \<and> selectedRelation s \<noteq> None)"

text \<open>The next animation frame runs the tasks queued by \<^verbatim>\<open>requestAnimationFrame\<close>, in order.\<close>

fun run_task :: "frame_task \<Rightarrow> world \<Rightarrow> world" where
  "run_task (OverrideTargetAnnotation original updated) w =
     relationsLayer_overrideTargetAnnotation original updated w"

definition animationFrame :: "world \<Rightarrow> world" where
  "animationFrame w = fold run_task (frames w) (w\<lparr>frames := []\<rparr>)"


text \<open>The entries of the log that commit a state, as opposed to the calls made.\<close>

fun is_commit :: "event \<Rightarrow> bool" where
  "is_commit (SetState s) = True"
| "is_commit _ = False"

text \<open>The host callbacks in the log, in order.\<close>

fun host_calls :: "event list \<Rightarrow> host_call list" where
  "host_calls [] = []"
| "host_calls (Host c # es) = c # host_calls es"
| "host_calls (_ # es) = host_calls es"

section \<open>Operations of the controller\<close>

text \<open>
  Every way the environment drives the controller: the events of the Selection Detector,
  of the two editor popups, of the Relation Layer and of the keyboard, the external API
  called by the host (with the id overrides handed to it), and the next animation frame.
\<close>

datatype op =
    Select select_evt
  | Changed
  | CreateOrUpdateAnnotation host_method annotation "annotation option"
  | DeleteAnnotation annotation
  | CancelAnnotation "annotation option"
  | KeyDown nat
  | EditRelation relation
  | CloseRelationsEditor
  | CreateOrUpdateRelation relation relation
  | DeleteRelation relation
  | OverrideAnnotationId annotation string
  | OverrideRelationId string string
  | AddAnnotation annotation
  | SetDisableSelect bool
  | RemoveAnnotation annotation
  | SelectAnnotation "annotation option"
  | SetMode string
  | SetReadOnly bool
  | SetWidgets "string list"
  | SetDisableEditor bool
  | AnimationFrame

fun apply_op :: "op \<Rightarrow> world \<Rightarrow> world" where
  "apply_op (Select evt) w = handleSelect evt w"
| "apply_op Changed w = onChanged w"
| "apply_op (CreateOrUpdateAnnotation m a previous) w = onCreateOrUpdateAnnotation m a previous w"
| "apply_op (DeleteAnnotation a) w = onDeleteAnnotation a w"
| "apply_op (CancelAnnotation a) w = onCancelAnnotation a w"
| "apply_op (KeyDown which) w = handleEscape which w"
| "apply_op (EditRelation r) w = onEditRelation r w"
| "apply_op CloseRelationsEditor w = closeRelationsEditor w"
| "apply_op (CreateOrUpdateRelation r previous) w = onCreateOrUpdateRelation r previous w"
| "apply_op (DeleteRelation r) w = onDeleteRelation r w"
| "apply_op (OverrideAnnotationId a forcedId) w = overrideAnnotationId a forcedId w"
| "apply_op (OverrideRelationId originalId forcedId) w = overrideRelationId originalId forcedId w"
| "apply_op (AddAnnotation a) w = addAnnotation a w"
| "apply_op (SetDisableSelect b) w = set_disableSelect b w"
| "apply_op (RemoveAnnotation a) w = removeAnnotation a w"
| "apply_op (SelectAnnotation arg) w = selectAnnotation arg w"
| "apply_op (SetMode mode) w = setMode mode w"
| "apply_op (SetReadOnly b) w = set_readOnly b w"
| "apply_op (SetWidgets ws) w = set_widgets ws w"
| "apply_op (SetDisableEditor b) w = set_disableEditor b w"
| "apply_op AnimationFrame w = animationFrame w"

text \<open>At most one of the annotation and the relation is selected.\<close>

definition exclusive :: "ctrl_state \<Rightarrow> bool" where
  "exclusive s = (selectedAnnotation s = None \<or> selectedRelation s = None)"

fun committed_exclusive :: "event \<Rightarrow> bool" where
  "committed_exclusive (SetState s) = exclusive s"
| "committed_exclusive _ = True"

text \<open>
  The operations that select an annotation arrive while no relation is selected, and the
  edit-relation event arrives while no annotation is selected.
\<close>

fun admitted :: "op \<Rightarrow> world \<Rightarrow> bool" where
  "admitted (Select evt) w = (selection evt = None \<or> selectedRelation (state w) = None)"
| "admitted (CreateOrUpdateAnnotation m a previous) w = (selectedRelation (state w) = None)"
| "admitted (SelectAnnotation arg) w = (arg = None \<or> selectedRelation (state w) = None)"
| "admitted (EditRelation r) w = (selectedAnnotation (state w) = None)"
| "admitted _ w = True"

inductive reachable :: "config \<Rightarrow> world \<Rightarrow> bool" for c :: config where
  start: "reachable c (init_world c)"
| step: "reachable c w \<Longrightarrow> admitted x w \<Longrightarrow> reachable c (apply_op x w)"

definition committed_states_exclusive :: "world \<Rightarrow> bool" where
  "committed_states_exclusive w =
     (exclusive (state w) \<and> (\<forall>e \<in> set (trace w). committed_exclusive e))"

text \<open>
  The DOM element is paired with the selected annotation: one is null exactly when the
  other is. A select event carries an element whenever it carries a selection.
\<close>

definition paired :: "ctrl_state \<Rightarrow> bool" where
  "paired s = ((selectedDOMElement s = None) = (selectedAnnotation s = None))"

fun carries_element :: "op \<Rightarrow> bool" where
  "carries_element (Select evt) = (selection evt = None \<or> element evt \<noteq> None)"
| "carries_element _ = True"

fun is_annotation_override :: "op \<Rightarrow> bool" where
  "is_annotation_override (OverrideAnnotationId a forcedId) = True"
| "is_annotation_override _ = False"

section \<open>Object identity of host payloads\<close>

text \<open>
  The annotation objects the controller's world holds on to: the entries of the Highlight
  Engine, the annotations wrapped by the relations of the Relation Layer, and the
  annotation and relation selected in the controller state. A host callback's payload is
  detached when none of its annotation objects is one of these, and it was cloned since a
  world \<open>w\<close> when each of its objects was allocated after \<open>w\<close>.
\<close>

definition stored :: "world \<Rightarrow> annotation list" where
  "stored w =
     hl_annotations (highlighter w) @ map rel_annotation (rl_relations (relationsLayer w)) @
     (case selectedAnnotation (state w) of Some a \<Rightarrow> [a] | None \<Rightarrow> []) @
     (case selectedRelation (state w) of Some r \<Rightarrow> [rel_annotation r] | None \<Rightarrow> [])"

fun arg_payload :: "host_arg \<Rightarrow> annotation list" where
  "arg_payload (ArgAnnotation a) = [a]"
| "arg_payload _ = []"

fun payload :: "host_call \<Rightarrow> annotation list" where
  "payload (OnAnnotationSelected a _) = [a]"
| "payload (OnAnnotationCreated a x) = a # arg_payload x"
| "payload (OnAnnotationUpdated a x) = a # arg_payload x"
| "payload (OnAnnotationDeleted a) = [a]"
| "payload (OnCancelSelected c) = (case c of Some a \<Rightarrow> [a] | None \<Rightarrow> [])"

definition detached :: "host_call \<Rightarrow> world \<Rightarrow> bool" where
  "detached c w = (\<forall>a \<in> set (payload c). oid a \<notin> oid ` set (stored w))"

definition cloned_since :: "world \<Rightarrow> host_call \<Rightarrow> bool" where
  "cloned_since w c = (\<forall>a \<in> set (payload c). next_oid w \<le> oid a)"

definition objects_allocated :: "world \<Rightarrow> bool" where
  "objects_allocated w = (\<forall>a \<in> set (stored w). oid a < next_oid w)"

section \<open>Example data\<close>

text \<open>
  Three annotations, a fresh draft selection and two relations (with the empty connection
  the relation editor receives as \<open>previous\<close> for a new relation). The objects
  \<open>0\<close> to \<open>9\<close> exist before the controller allocates its first clone.
\<close>

definition ex_cfg :: config where
  "ex_cfg = \<lparr>cfg_readOnly = False, cfg_widgets = [], cfg_disableEditor = False\<rparr>"

definition ex_cfg_headless :: config where
  "ex_cfg_headless = \<lparr>cfg_readOnly = False, cfg_widgets = [], cfg_disableEditor = True\<rparr>"

definition ex_note :: body where
  "ex_note = \<lparr>draft = None, content = [(''value'', ''note'')]\<rparr>"

definition ex_a :: annotation where
  "ex_a = \<lparr>oid = 1, ann_id = ''local-1'', bodies = [ex_note], target = ''chars 3-9'',
           ann_readOnly = False, isSelection = False\<rparr>"

definition ex_b :: annotation where
  "ex_b = \<lparr>oid = 2, ann_id = ''local-2'', bodies = [ex_note], target = ''chars 12-15'',
           ann_readOnly = False, isSelection = False\<rparr>"

definition ex_c :: annotation where
  "ex_c = \<lparr>oid = 3, ann_id = ''local-3'', bodies = [ex_note], target = ''chars 20-22'',
           ann_readOnly = False, isSelection = False\<rparr>"

definition ex_sel :: annotation where
  "ex_sel = \<lparr>oid = 4, ann_id = ''local-9'',
             bodies = [\<lparr>draft = Some True, content = [(''value'', ''draft note'')]\<rparr>, ex_note],
             target = ''chars 30-34'', ann_readOnly = False, isSelection = True\<rparr>"

definition ex_r1 :: relation where
  "ex_r1 = \<lparr>rel_annotation = \<lparr>oid = 5, ann_id = ''rel-1'', bodies = [ex_note], target = ''link'',
                               ann_readOnly = False, isSelection = False\<rparr>,
            rel_from = ''local-1'', rel_to = ''local-2''\<rparr>"

definition ex_r1_empty :: relation where
  "ex_r1_empty = ex_r1\<lparr>rel_annotation := (rel_annotation ex_r1)\<lparr>oid := 6, bodies := []\<rparr>\<rparr>"

definition ex_r2 :: relation where
  "ex_r2 = \<lparr>rel_annotation = \<lparr>oid = 7, ann_id = ''rel-2'', bodies = [ex_note], target = ''link'',
                               ann_readOnly = False, isSelection = False\<rparr>,
            rel_from = ''local-2'', rel_to = ''local-3''\<rparr>"

definition ex_r2_empty :: relation where
  "ex_r2_empty = ex_r2\<lparr>rel_annotation := (rel_annotation ex_r2)\<lparr>oid := 8, bodies := []\<rparr>\<rparr>"

definition ex_init :: world where
  "ex_init = (init_world ex_cfg)\<lparr>next_oid := 10\<rparr>"

definition ex_init_headless :: world where
  "ex_init_headless = (init_world ex_cfg_headless)\<lparr>next_oid := 10\<rparr>"

text \<open>The three annotations added through the external API, then the two relations confirmed.\<close>

definition ex_annotated :: world where
  "ex_annotated = addAnnotation ex_c (addAnnotation ex_b (addAnnotation ex_a ex_init))"

definition ex_related :: world where
  "ex_related =
     onCreateOrUpdateRelation ex_r2 ex_r2_empty (onCreateOrUpdateRelation ex_r1 ex_r1_empty ex_annotated)"

text \<open>Relations mode entered from the initial state: selection is disabled, nothing is selected.\<close>

definition ex_relations_mode :: world where
  "ex_relations_mode = setMode ''RELATIONS'' ex_init"

text \<open>A fresh draft selection made in normal mode: the editor is open on it.\<close>

definition ex_draft_selected :: world where
  "ex_draft_selected =
     handleSelect \<lparr>selection = Some ex_sel, element = Some (Span ''local-9'')\<rparr> ex_init"

text \<open>
  Normal mode, the three annotations in the engine, and a click on the span of the first
  one: the select event carries the engine's own object and the editor is open on it.
\<close>

definition ex_a_selected :: world where
  "ex_a_selected =
     handleSelect \<lparr>selection = Some (ex_a\<lparr>oid := 10\<rparr>), element = Some (Span ''local-1'')\<rparr> ex_related"


text \<open>Headless mode and the select event of a fresh draft selection.\<close>

definition ex_headless_draft :: world where
  "ex_headless_draft =
     handleSelect \<lparr>selection = Some ex_sel, element = Some (Span ''local-9'')\<rparr> ex_init_headless"

text \<open>
  Relations mode entered with the three annotations in the engine, then Escape, then a
  fresh draft selection, then the edit-relation event of a newly drawn connection.
\<close>

definition ex_escaped :: world where
  "ex_escaped = handleEscape 27 (setMode ''RELATIONS'' ex_annotated)"

definition ex_both_selected :: world where
  "ex_both_selected =
     onEditRelation ex_r1
       (handleSelect \<lparr>selection = Some ex_sel, element = Some (Span ''local-9'')\<rparr> ex_escaped)"

section \<open>Basic facts\<close>

lemmas call_defs = emit_def setState_def props_def selectionHandler_set_enabled_def
  selectionHandler_set_readOnly_def selectionHandler_clearSelection_def
  highlighter_addOrUpdateAnnotation_def highlighter_removeAnnotation_def highlighter_overrideId_def
  relationsLayer_addOrUpdateRelation_def relationsLayer_removeRelation_def
  relationsLayer_destroyConnectionsFor_def relationsLayer_overrideTargetAnnotation_def
  relationsLayer_overrideRelationId_def relationsLayer_resetDrawing_def relationsLayer_set_readOnly_def
  relationsLayer_startDrawing_def relationsLayer_stopDrawing_def requestAnimationFrame_def

lemmas ex_defs = ex_cfg_def ex_cfg_headless_def ex_note_def ex_a_def ex_b_def ex_c_def ex_sel_def
  ex_r1_def ex_r1_empty_def ex_r2_def ex_r2_empty_def ex_init_def ex_init_headless_def init_world_def

lemmas handler_defs = handleSelect_def onNormalSelect_def onHeadlessSelect_def onChanged_def
  onCreateOrUpdateAnnotation_def onDeleteAnnotation_def onCancelAnnotation_def handleEscape_def
  onEditRelation_def closeRelationsEditor_def onCreateOrUpdateRelation_def onDeleteRelation_def
  overrideAnnotationId_def swapId_def updateDependentRelations_def overrideRelationId_def
  addAnnotation_def set_disableSelect_def removeAnnotation_def selectAnnotation_def setMode_def
  set_readOnly_def set_widgets_def set_disableEditor_def clearState_def undraft_def
  clone_def clone_with_body_def toAnnotation_def

lemma host_calls_append: "host_calls (xs @ ys) = host_calls xs @ host_calls ys"
  by (induction xs rule: host_calls.induct) simp_all

lemma hl_removeAnnotation_absent:
  assumes "\<not> hl_present (ann_id a) h"
  shows "hl_removeAnnotation a h = h"
proof -
  from assms have "filter (\<lambda>x. ann_id x \<noteq> ann_id a) (hl_annotations h) = hl_annotations h"
    by (auto simp: hl_present_def filter_id_conv image_iff)
  then show ?thesis by (simp add: hl_removeAnnotation_def)
qed

lemma hl_addOrUpdateAnnotation_mem:
  "a \<in> set (hl_annotations (hl_addOrUpdateAnnotation a previous h))"
  by (auto simp: hl_addOrUpdateAnnotation_def hl_present_def image_iff Let_def)

lemma span_after_write:
  "map_option fst (first (hl_findAnnotationSpans a (hl_addOrUpdateAnnotation a previous h))) =
     Some (Span (ann_id a))"
proof -
  let ?xs = "filter (\<lambda>x. ann_id x = ann_id a) (hl_annotations (hl_addOrUpdateAnnotation a previous h))"
  have "a \<in> set (hl_annotations (hl_addOrUpdateAnnotation a previous h))"
    by (rule hl_addOrUpdateAnnotation_mem)
  then have "a \<in> set ?xs" by simp
  then obtain y ys where ys: "?xs = y # ys" by (cases ?xs) auto
  then have "y \<in> set ?xs" by simp
  then have "ann_id y = ann_id a" by simp
  with ys show ?thesis by (simp add: hl_findAnnotationSpans_def first_def)
qed

lemma frame_tasks_state: "state (fold run_task ts w) = state w"
proof (induction ts arbitrary: w)
  case Nil
  then show ?case by simp
next
  case (Cons t ts)
  have "state (run_task t w) = state w"
    by (cases t) (simp add: call_defs)
  then show ?case by (simp add: Cons.IH)
qed

lemma ex_relations_mode_eq:
  "ex_relations_mode =
     ex_init\<lparr>selectionHandler := (selectionHandler ex_init)\<lparr>sh_enabled := False\<rparr>,
             relationsLayer := (relationsLayer ex_init)\<lparr>rl_readOnly := False, rl_drawing := True\<rparr>,
             trace := [SetState (state ex_init), ShSetEnabled True, ShSetEnabled False,
                       RlSetReadOnly False, RlStartDrawing]\<rparr>"
  by (simp add: ex_relations_mode_def setMode_def clearState_def call_defs ex_defs)

lemma ex_draft_selected_eq:
  "ex_draft_selected =
     ex_init\<lparr>state := (state ex_init)\<lparr>selectedAnnotation := Some ex_sel,
                                      selectedDOMElement := Some (Span ''local-9'')\<rparr>,
             trace := [SetState (state ex_init),
                       SetState ((state ex_init)\<lparr>selectedAnnotation := Some ex_sel,
                                                 selectedDOMElement := Some (Span ''local-9'')\<rparr>)]\<rparr>"
  by (simp add: ex_draft_selected_def handleSelect_def onNormalSelect_def call_defs ex_defs)

lemma ex_annotated_eq:
  "ex_annotated =
     ex_init\<lparr>highlighter := \<lparr>hl_annotations = [ex_a\<lparr>oid := 10\<rparr>, ex_b\<lparr>oid := 11\<rparr>, ex_c\<lparr>oid := 12\<rparr>]\<rparr>,
             next_oid := 13,
             trace := [HlAddOrUpdateAnnotation (ex_a\<lparr>oid := 10\<rparr>) None,
                       HlAddOrUpdateAnnotation (ex_b\<lparr>oid := 11\<rparr>) None,
                       HlAddOrUpdateAnnotation (ex_c\<lparr>oid := 12\<rparr>) None]\<rparr>"
  by (simp add: ex_annotated_def addAnnotation_def clone_def call_defs ex_defs
      hl_addOrUpdateAnnotation_def hl_present_def)

lemma ex_related_parts:
  "state ex_related = state ex_init"
  "selectionHandler ex_related = selectionHandler ex_init"
  "highlighter ex_related = \<lparr>hl_annotations = [ex_a\<lparr>oid := 10\<rparr>, ex_b\<lparr>oid := 11\<rparr>, ex_c\<lparr>oid := 12\<rparr>]\<rparr>"
  "relationsLayer ex_related = (relationsLayer ex_init)\<lparr>rl_relations := [ex_r1, ex_r2]\<rparr>"
  "frames ex_related = []"
  "next_oid ex_related = 15"
  by (simp_all add: ex_related_def ex_annotated_eq onCreateOrUpdateRelation_def closeRelationsEditor_def
      rl_addOrUpdateRelation_def rel_id_def clone_def call_defs ex_defs)

lemma ex_a_selected_parts:
  "state ex_a_selected = (state ex_init)\<lparr>selectedAnnotation := Some (ex_a\<lparr>oid := 10\<rparr>),
                                          selectedDOMElement := Some (Span ''local-1'')\<rparr>"
  "highlighter ex_a_selected = highlighter ex_related"
  "relationsLayer ex_a_selected = relationsLayer ex_related"
  "frames ex_a_selected = []"
  "next_oid ex_a_selected = 16"
  "host_calls (trace ex_a_selected) =
     [OnAnnotationCreated ((rel_annotation ex_r1)\<lparr>oid := 13\<rparr>) (ArgOverrideRelationId ''rel-1''),
      OnAnnotationCreated ((rel_annotation ex_r2)\<lparr>oid := 14\<rparr>) (ArgOverrideRelationId ''rel-2''),
      OnAnnotationSelected (ex_a\<lparr>oid := 15\<rparr>) (Some (Span ''local-1''))]"
  by (simp_all add: ex_a_selected_def handleSelect_def onNormalSelect_def ex_related_parts
      clone_def call_defs host_calls_append Let_def ex_related_def ex_annotated_eq
      onCreateOrUpdateRelation_def closeRelationsEditor_def rl_addOrUpdateRelation_def rel_id_def ex_defs)


section \<open>Annotation delete\<close>



section \<open>The Selection Detector's enabled flag\<close>

text \<open>
  C10. Every state-clearing operation sets the Selection Detector's enabled flag to true
  whatever it was before: \<open>clearState\<close> itself, a select event with a null selection,
  annotation delete, annotation cancel and Escape, \<open>removeAnnotation\<close> of the annotation
  that is currently selected, and the branch of \<open>setMode\<close> for a mode other than
  \<open>RELATIONS\<close>. In particular, after the host has set \<open>disableSelect = true\<close>, each of
  them leaves \<open>disableSelect\<close> false again.
\<close>

theorem clearing_enables_selection:
  "sh_enabled (selectionHandler (clearState w)) \<and>
   sh_enabled (selectionHandler (handleSelect \<lparr>selection = None, element = e\<rparr> w)) \<and>
   sh_enabled (selectionHandler (onDeleteAnnotation a w)) \<and>
   sh_enabled (selectionHandler (onCancelAnnotation c w)) \<and>
   sh_enabled (selectionHandler (handleEscape 27 w)) \<and>
   ((case selectedAnnotation (state w) of Some s \<Rightarrow> isEqual a s | None \<Rightarrow> False) \<longrightarrow>
      sh_enabled (selectionHandler (removeAnnotation a w))) \<and>
   (mode \<noteq> ''RELATIONS'' \<longrightarrow> sh_enabled (selectionHandler (setMode mode w))) \<and>
   get_disableSelect (set_disableSelect True w) \<and>
   \<not> get_disableSelect (clearState (set_disableSelect True w)) \<and>
   \<not> get_disableSelect (handleSelect \<lparr>selection = None, element = e\<rparr> (set_disableSelect True w)) \<and>
   \<not> get_disableSelect (onDeleteAnnotation a (set_disableSelect True w)) \<and>
   \<not> get_disableSelect (onCancelAnnotation c (set_disableSelect True w)) \<and>
   \<not> get_disableSelect (handleEscape 27 (set_disableSelect True w)) \<and>
   (mode \<noteq> ''RELATIONS'' \<longrightarrow> \<not> get_disableSelect (setMode mode (set_disableSelect True w)))"
  by (simp add: clearState_def handleSelect_def onHeadlessSelect_def onNormalSelect_def
      onDeleteAnnotation_def onCancelAnnotation_def handleEscape_def removeAnnotation_def
      setMode_def get_disableSelect_def set_disableSelect_def call_defs Let_def
      split: option.splits)

theorem clearing_enables_selection_witness:
  "selectedAnnotation (state (set_disableSelect True ex_a_selected)) = Some (ex_a\<lparr>oid := 10\<rparr>) \<and>
   isEqual ex_a (ex_a\<lparr>oid := 10\<rparr>) \<and>
   \<not> sh_enabled (selectionHandler (set_disableSelect True ex_a_selected)) \<and>
   sh_enabled (selectionHandler (removeAnnotation ex_a (set_disableSelect True ex_a_selected))) \<and>
   ''NORMAL'' \<noteq> ''RELATIONS'' \<and>
   sh_enabled (selectionHandler (setMode ''NORMAL'' (set_disableSelect True ex_a_selected)))"
  using clearing_enables_selection [of "set_disableSelect True ex_a_selected" None ex_a None "''NORMAL''"]
  by (simp add: ex_a_selected_parts set_disableSelect_def isEqual_def call_defs ex_defs)

section \<open>Escape\<close>

text \<open>
  C6, as the specification states it, fails: in relations mode with no annotation editor
  open, Escape sets the Selection Detector's enabled flag from false to true and notifies
  the host through \<open>onCancelSelected\<close>.
\<close>

theorem escape_without_editor_counterexample:
  "selectedAnnotation (state ex_relations_mode) = None \<and>
   \<not> annotation_editor_rendered (state ex_relations_mode) \<and>
   \<not> sh_enabled (selectionHandler ex_relations_mode) \<and>
   sh_enabled (selectionHandler (handleEscape 27 ex_relations_mode)) \<and>
   host_calls (trace ex_relations_mode) = [] \<and>
   host_calls (trace (handleEscape 27 ex_relations_mode)) = [OnCancelSelected None]"
  by (simp add: ex_relations_mode_eq handleEscape_def onCancelAnnotation_def clearState_def
      call_defs annotation_editor_rendered_def editor_open_def ex_defs)

text \<open>
  C6, amended. The Escape key (key code 27) runs the annotation editor's cancel path with
  no annotation, whether or not an annotation editor is open: it clears
  \<open>selectedAnnotation\<close> and \<open>selectedDOMElement\<close>, sets the Selection Detector's enabled
  flag to true, clears the pending raw selection and notifies the host once through
  \<open>onCancelSelected\<close> with no annotation. It leaves \<open>selectedRelation\<close> as it was, so it
  never closes an open relation editor. Any other key has no effect.
\<close>

theorem escape_is_cancel:
  "handleEscape 27 w = onCancelAnnotation None w \<and>
   state (handleEscape 27 w) = (state w)\<lparr>selectedAnnotation := None, selectedDOMElement := None\<rparr> \<and>
   selectedRelation (state (handleEscape 27 w)) = selectedRelation (state w) \<and>
   relation_editor_rendered (state (handleEscape 27 w)) = relation_editor_rendered (state w) \<and>
   sh_enabled (selectionHandler (handleEscape 27 w)) \<and>
   \<not> sh_pending (selectionHandler (handleEscape 27 w)) \<and>
   host_calls (trace (handleEscape 27 w)) = host_calls (trace w) @ [OnCancelSelected None] \<and>
   (which \<noteq> 27 \<longrightarrow> handleEscape which w = w)"
  by (auto simp add: handleEscape_def onCancelAnnotation_def clearState_def call_defs host_calls_append
      relation_editor_rendered_def editor_open_def)

theorem escape_is_cancel_witness:
  "(13::nat) \<noteq> 27 \<and> handleEscape 13 ex_draft_selected = ex_draft_selected \<and>
   selectedAnnotation (state ex_draft_selected) = Some ex_sel \<and>
   selectedAnnotation (state (handleEscape 27 ex_draft_selected)) = None \<and>
   host_calls (trace (handleEscape 27 ex_draft_selected)) = [OnCancelSelected None]"
  using escape_is_cancel [of ex_draft_selected 13]
  by (simp add: ex_draft_selected_eq handleEscape_def onCancelAnnotation_def clearState_def
      call_defs ex_defs)

section \<open>Delete of an annotation the Highlight Engine does not hold\<close>

text \<open>
  C9, as the specification states it, fails: with the editor open on a fresh draft
  selection, which the Highlight Engine does not hold, delete of that annotation clears
  the controller's selection, so the controller's state is not what it was.
\<close>

theorem delete_missing_counterexample:
  "\<not> hl_present (ann_id ex_sel) (highlighter ex_draft_selected) \<and>
   selectedAnnotation (state ex_draft_selected) = Some ex_sel \<and>
   selectedAnnotation (state (onDeleteAnnotation ex_sel ex_draft_selected)) = None \<and>
   state (onDeleteAnnotation ex_sel ex_draft_selected) \<noteq> state ex_draft_selected"
  by (simp add: ex_draft_selected_eq hl_present_def onDeleteAnnotation_def clearState_def call_defs ex_defs)

text \<open>
  C9, amended. Delete of an annotation that the Highlight Engine does not hold leaves the
  Highlight Engine unchanged and still notifies the host through \<open>onAnnotationDeleted\<close>
  exactly once. As on every delete, \<open>selectedAnnotation\<close> and \<open>selectedDOMElement\<close> are
  cleared and the Selection Detector is enabled; the controller's state is unchanged when
  nothing was selected before.
\<close>

theorem delete_missing:
  assumes "\<not> hl_present (ann_id a) (highlighter w)"
  shows "highlighter (onDeleteAnnotation a w) = highlighter w \<and>
   host_calls (trace (onDeleteAnnotation a w)) = host_calls (trace w) @ [OnAnnotationDeleted a] \<and>
   state (onDeleteAnnotation a w) = (state w)\<lparr>selectedAnnotation := None, selectedDOMElement := None\<rparr> \<and>
   sh_enabled (selectionHandler (onDeleteAnnotation a w)) \<and>
   (selectedAnnotation (state w) = None \<and> selectedDOMElement (state w) = None
      \<longrightarrow> state (onDeleteAnnotation a w) = state w)"
  using assms
  by (simp add: onDeleteAnnotation_def clearState_def call_defs host_calls_append
      hl_removeAnnotation_absent)

theorem delete_missing_witness:
  "\<not> hl_present (ann_id ex_a) (highlighter ex_init) \<and>
   selectedAnnotation (state ex_init) = None \<and> selectedDOMElement (state ex_init) = None \<and>
   highlighter (onDeleteAnnotation ex_a ex_init) = highlighter ex_init \<and>
   host_calls (trace (onDeleteAnnotation ex_a ex_init)) = [OnAnnotationDeleted ex_a] \<and>
   state (onDeleteAnnotation ex_a ex_init) = state ex_init"
proof -
  have absent: "\<not> hl_present (ann_id ex_a) (highlighter ex_init)"
    by (simp add: hl_present_def ex_defs)
  from delete_missing [OF absent] absent show ?thesis
    by (simp add: ex_defs)
qed

section \<open>Relation confirm\<close>

lemma rl_addOrUpdateRelation_mem: "r \<in> set (rl_relations (rl_addOrUpdateRelation r previous l))"
  by (auto simp: rl_addOrUpdateRelation_def image_iff)

lemma renamed_mem:
  assumes "r \<in> set (rl_relations l)"
  shows "r\<lparr>rel_annotation := (rel_annotation r)\<lparr>ann_id := f\<rparr>\<rparr>
           \<in> set (rl_relations (rl_overrideRelationId (rel_id r) f l))"
proof -
  have "(\<lambda>x. if rel_id x = rel_id r then x\<lparr>rel_annotation := (rel_annotation x)\<lparr>ann_id := f\<rparr>\<rparr> else x) r
          \<in> set (rl_relations (rl_overrideRelationId (rel_id r) f l))"
    unfolding rl_overrideRelationId_def using assms by (simp del: if_P)
  then show ?thesis by simp
qed

text \<open>
  C5. For every confirm event of the relation editor, with arguments \<open>(relation, previous)\<close>:
  when the annotation wrapped by \<open>previous\<close> has no bodies the host receives
  \<open>onAnnotationCreated\<close> with a clone of the relation's annotation and a callback that
  overrides the id of that relation later; otherwise the host receives
  \<open>onAnnotationUpdated\<close> with clones of the new and of the previous wrapped annotation. In
  both cases the controller first writes the relation into the Relation Layer
  (add-or-replace, after which the layer holds it), then closes the relation editor and
  resets drawing. The callback, called in any later state with a forced id, is
  \<open>overrideRelationId\<close> on the relation's id: it closes the relation editor when one is
  open and then has the Relation Layer give the relation the forced id; called right
  after the confirm, it leaves the confirmed relation in the layer under the forced id.
\<close>

theorem relation_confirm:
  "(bodies (rel_annotation previous) = [] \<longrightarrow>
      host_calls (trace (onCreateOrUpdateRelation r previous w)) =
        host_calls (trace w) @
          [OnAnnotationCreated ((rel_annotation r)\<lparr>oid := next_oid w\<rparr>)
             (ArgOverrideRelationId (ann_id (rel_annotation r)))]) \<and>
   (bodies (rel_annotation previous) \<noteq> [] \<longrightarrow>
      host_calls (trace (onCreateOrUpdateRelation r previous w)) =
        host_calls (trace w) @
          [OnAnnotationUpdated ((rel_annotation r)\<lparr>oid := next_oid w\<rparr>)
             (ArgAnnotation ((rel_annotation previous)\<lparr>oid := Suc (next_oid w)\<rparr>))]) \<and>
   take 3 (drop (length (trace w)) (trace (onCreateOrUpdateRelation r previous w))) =
     [RlAddOrUpdateRelation r previous, SetState ((state w)\<lparr>selectedRelation := None\<rparr>), RlResetDrawing] \<and>
   relationsLayer (onCreateOrUpdateRelation r previous w) =
     (rl_addOrUpdateRelation r previous (relationsLayer w))\<lparr>rl_current := False\<rparr> \<and>
   r \<in> set (rl_relations (relationsLayer (onCreateOrUpdateRelation r previous w))) \<and>
   selectedRelation (state (onCreateOrUpdateRelation r previous w)) = None \<and>
   \<not> relation_editor_rendered (state (onCreateOrUpdateRelation r previous w)) \<and>
   call_idOverrideFn (ArgOverrideRelationId (ann_id (rel_annotation r))) forcedId later =
     overrideRelationId (ann_id (rel_annotation r)) forcedId later \<and>
   trace (call_idOverrideFn (ArgOverrideRelationId (ann_id (rel_annotation r))) forcedId later) =
     trace later @
     (if selectedRelation (state later) \<noteq> None
      then [SetState ((state later)\<lparr>selectedRelation := None\<rparr>)] else []) @
     [RlOverrideRelationId (ann_id (rel_annotation r)) forcedId] \<and>
   selectedRelation (state (call_idOverrideFn (ArgOverrideRelationId (ann_id (rel_annotation r))) forcedId later)) = None \<and>
   rl_relations (relationsLayer
       (call_idOverrideFn (ArgOverrideRelationId (ann_id (rel_annotation r))) forcedId later)) =
     map (\<lambda>x. if rel_id x = rel_id r
              then x\<lparr>rel_annotation := (rel_annotation x)\<lparr>ann_id := forcedId\<rparr>\<rparr> else x)
       (rl_relations (relationsLayer later)) \<and>
   r\<lparr>rel_annotation := (rel_annotation r)\<lparr>ann_id := forcedId\<rparr>\<rparr>
     \<in> set (rl_relations (relationsLayer
           (call_idOverrideFn (ArgOverrideRelationId (ann_id (rel_annotation r))) forcedId
              (onCreateOrUpdateRelation r previous w))))"
proof -
  let ?w' = "onCreateOrUpdateRelation r previous w"
  let ?cb = "ArgOverrideRelationId (ann_id (rel_annotation r))"
  have confirm: "(bodies (rel_annotation previous) = [] \<longrightarrow>
      host_calls (trace ?w') =
        host_calls (trace w) @
          [OnAnnotationCreated ((rel_annotation r)\<lparr>oid := next_oid w\<rparr>) ?cb]) \<and>
   (bodies (rel_annotation previous) \<noteq> [] \<longrightarrow>
      host_calls (trace ?w') =
        host_calls (trace w) @
          [OnAnnotationUpdated ((rel_annotation r)\<lparr>oid := next_oid w\<rparr>)
             (ArgAnnotation ((rel_annotation previous)\<lparr>oid := Suc (next_oid w)\<rparr>))]) \<and>
   take 3 (drop (length (trace w)) (trace ?w')) =
     [RlAddOrUpdateRelation r previous, SetState ((state w)\<lparr>selectedRelation := None\<rparr>), RlResetDrawing] \<and>
   relationsLayer ?w' = (rl_addOrUpdateRelation r previous (relationsLayer w))\<lparr>rl_current := False\<rparr> \<and>
   r \<in> set (rl_relations (relationsLayer ?w')) \<and>
   selectedRelation (state ?w') = None \<and>
   \<not> relation_editor_rendered (state ?w')"
    by (simp add: onCreateOrUpdateRelation_def closeRelationsEditor_def clone_def call_defs
        host_calls_append rl_addOrUpdateRelation_mem relation_editor_rendered_def Let_def)
  have cb: "call_idOverrideFn ?cb forcedId v = overrideRelationId (ann_id (rel_annotation r)) forcedId v" for v
    by (simp add: call_idOverrideFn_def)
  have later: "trace (overrideRelationId (ann_id (rel_annotation r)) forcedId later) =
     trace later @
     (if selectedRelation (state later) \<noteq> None
      then [SetState ((state later)\<lparr>selectedRelation := None\<rparr>)] else []) @
     [RlOverrideRelationId (ann_id (rel_annotation r)) forcedId] \<and>
   selectedRelation (state (overrideRelationId (ann_id (rel_annotation r)) forcedId later)) = None \<and>
   rl_relations (relationsLayer (overrideRelationId (ann_id (rel_annotation r)) forcedId later)) =
     map (\<lambda>x. if rel_id x = rel_id r
              then x\<lparr>rel_annotation := (rel_annotation x)\<lparr>ann_id := forcedId\<rparr>\<rparr> else x)
       (rl_relations (relationsLayer later))"
    by (simp add: overrideRelationId_def call_defs rl_overrideRelationId_def rel_id_def)
  have "relationsLayer (overrideRelationId (ann_id (rel_annotation r)) forcedId ?w') =
      rl_overrideRelationId (rel_id r) forcedId (relationsLayer ?w')"
    by (simp add: overrideRelationId_def call_defs rel_id_def)
  moreover have "r \<in> set (rl_relations (relationsLayer ?w'))"
    using confirm by blast
  ultimately have now: "r\<lparr>rel_annotation := (rel_annotation r)\<lparr>ann_id := forcedId\<rparr>\<rparr>
     \<in> set (rl_relations (relationsLayer (overrideRelationId (ann_id (rel_annotation r)) forcedId ?w')))"
    by (simp add: renamed_mem)
  show ?thesis
    unfolding cb
    by (intro conjI) (use confirm later now in \<open>blast+\<close>)
qed

theorem relation_confirm_witness:
  "bodies (rel_annotation ex_r1_empty) = [] \<and>
   host_calls (trace (onCreateOrUpdateRelation ex_r1 ex_r1_empty ex_annotated)) =
     [OnAnnotationCreated ((rel_annotation ex_r1)\<lparr>oid := 13\<rparr>) (ArgOverrideRelationId ''rel-1'')] \<and>
   ex_r1 \<in> set (rl_relations (relationsLayer (onCreateOrUpdateRelation ex_r1 ex_r1_empty ex_annotated))) \<and>
   rl_relations (relationsLayer
       (call_idOverrideFn (ArgOverrideRelationId ''rel-1'') ''srv-rel-7''
          (onCreateOrUpdateRelation ex_r1 ex_r1_empty ex_annotated))) =
     [ex_r1\<lparr>rel_annotation := (rel_annotation ex_r1)\<lparr>ann_id := ''srv-rel-7''\<rparr>\<rparr>] \<and>
   bodies (rel_annotation ex_r1) \<noteq> [] \<and>
   host_calls (trace (onCreateOrUpdateRelation
                        (ex_r1\<lparr>rel_annotation := (rel_annotation ex_r1)\<lparr>bodies := [ex_note, ex_note]\<rparr>\<rparr>)
                        ex_r1 ex_related)) =
     [OnAnnotationCreated ((rel_annotation ex_r1)\<lparr>oid := 13\<rparr>) (ArgOverrideRelationId ''rel-1''),
      OnAnnotationCreated ((rel_annotation ex_r2)\<lparr>oid := 14\<rparr>) (ArgOverrideRelationId ''rel-2''),
      OnAnnotationUpdated ((rel_annotation ex_r1)\<lparr>oid := 15, bodies := [ex_note, ex_note]\<rparr>)
        (ArgAnnotation ((rel_annotation ex_r1)\<lparr>oid := 16\<rparr>))]"
  using relation_confirm [where r = ex_r1 and previous = ex_r1_empty and w = ex_annotated
      and forcedId = "''srv-rel-7''" and later = "onCreateOrUpdateRelation ex_r1 ex_r1_empty ex_annotated"]
    relation_confirm [where r = "ex_r1\<lparr>rel_annotation := (rel_annotation ex_r1)\<lparr>bodies := [ex_note, ex_note]\<rparr>\<rparr>"
                        and previous = ex_r1 and w = ex_related]
  by (simp add: ex_related_parts ex_related_def ex_annotated_eq onCreateOrUpdateRelation_def
      closeRelationsEditor_def clone_def call_defs ex_defs rl_addOrUpdateRelation_def rel_id_def
      call_idOverrideFn_def overrideRelationId_def rl_overrideRelationId_def)

section \<open>The DOM element paired with the selected annotation\<close>

text \<open>
  Every operation but \<open>overrideAnnotationId\<close> keeps the pair together: the select
  handlers, \<open>clearState\<close> and \<open>selectAnnotation\<close> set or clear both fields, and the create
  path selects the span the Highlight Engine reports for the annotation just written.
\<close>

lemma create_paired: "paired (state (onCreateOrUpdateAnnotation m a previous w))"
  by (cases previous)
     (simp_all add: onCreateOrUpdateAnnotation_def clone_def call_defs Let_def paired_def span_after_write)

lemma step_paired:
  assumes "paired (state w)" and "carries_element x" and "\<not> is_annotation_override x"
  shows "paired (state (apply_op x w))"
proof (cases x)
  case (Select evt)
  show ?thesis
  proof (cases "selection evt")
    case None
    then show ?thesis using Select
      by (simp add: handleSelect_def onNormalSelect_def onHeadlessSelect_def clearState_def
          call_defs paired_def)
  next
    case (Some sel)
    show ?thesis
    proof (cases "editorDisabled (state w) \<and> isSelection sel")
      case True
      then show ?thesis using Select Some
        by (simp add: handleSelect_def onHeadlessSelect_def undraft_def clone_with_body_def
            toAnnotation_def Let_def create_paired)
    next
      case False
      then show ?thesis using Select Some assms(2)
        by (auto simp: handleSelect_def onNormalSelect_def onHeadlessSelect_def clone_def
            call_defs Let_def paired_def)
    qed
  qed
next
  case (CreateOrUpdateAnnotation m a previous)
  then show ?thesis by (simp add: create_paired)
next
  case (OverrideAnnotationId a f)
  then show ?thesis using assms(3) by simp
next
  case AnimationFrame
  then show ?thesis using assms(1) by (simp add: animationFrame_def frame_tasks_state)
qed (use assms(1) in \<open>auto simp: paired_def handler_defs call_defs Let_def
      split: option.splits prod.splits list.splits if_splits\<close>)

text \<open>
  C3. The claim is that \<open>selectedDOMElement\<close> is non-null if and only if
  \<open>selectedAnnotation\<close> is non-null, after every operation. Evaluated on the code: with the
  annotation editor open on an annotation (both fields set by the select event),
  \<open>overrideAnnotationId\<close> clears \<open>selectedAnnotation\<close> and \<open>selectedRelation\<close> and leaves
  \<open>selectedDOMElement\<close> set, unlike \<open>clearState\<close>, which clears the pair.
\<close>

theorem override_leaves_dom_element:
  "selectedAnnotation (state ex_a_selected) = Some (ex_a\<lparr>oid := 10\<rparr>) \<and>
   selectedDOMElement (state ex_a_selected) = Some (Span ''local-1'') \<and>
   paired (state ex_a_selected) \<and>
   selectedAnnotation (state (overrideAnnotationId (ex_a\<lparr>oid := 10\<rparr>) ''srv-9'' ex_a_selected)) = None \<and>
   selectedDOMElement (state (overrideAnnotationId (ex_a\<lparr>oid := 10\<rparr>) ''srv-9'' ex_a_selected)) =
     Some (Span ''local-1'') \<and>
   \<not> paired (state (overrideAnnotationId (ex_a\<lparr>oid := 10\<rparr>) ''srv-9'' ex_a_selected))"
  by (simp add: overrideAnnotationId_def swapId_def updateDependentRelations_def ex_a_selected_parts
      call_defs paired_def ex_defs split: prod.splits)

theorem override_leaves_dom_element_witness:
  "selectedAnnotation (state ex_a_selected) \<noteq> None \<and>
   selectedAnnotation (state (overrideAnnotationId (ex_a\<lparr>oid := 10\<rparr>) ''srv-9'' ex_a_selected)) = None \<and>
   selectedDOMElement (state (overrideAnnotationId (ex_a\<lparr>oid := 10\<rparr>) ''srv-9'' ex_a_selected)) \<noteq> None"
  using override_leaves_dom_element by simp

section \<open>Headless select of a fresh draft\<close>

text \<open>
  C7, as the specification states it, fails in its last part: after a headless select of a
  fresh draft, \<open>selectedAnnotation\<close> and \<open>selectedDOMElement\<close> are set, not null.
\<close>

theorem headless_draft_counterexample:
  "editorDisabled (state ex_init_headless) \<and> isSelection ex_sel \<and>
   selectedAnnotation (state ex_init_headless) = None \<and>
   selectedDOMElement (state ex_init_headless) = None \<and>
   selectedAnnotation (state ex_headless_draft) \<noteq> None \<and>
   selectedDOMElement (state ex_headless_draft) \<noteq> None"
  by (simp add: ex_headless_draft_def handleSelect_def onHeadlessSelect_def undraft_def
      clone_with_body_def toAnnotation_def onCreateOrUpdateAnnotation_def clone_def call_defs
      hl_addOrUpdateAnnotation_def hl_present_def hl_findAnnotationSpans_def first_def Let_def ex_defs)

text \<open>
  C7, amended. In headless mode (editor disabled), when a select event carries a fresh
  draft selection: all draft markers are stripped from its bodies and the create path
  runs exactly once, writing the stripped annotation into the Highlight Engine and firing
  \<open>onAnnotationCreated\<close> once with it; no editor popup is rendered, because \<open>render\<close> opens
  the popups only when the editor is not disabled. \<open>selectedAnnotation\<close> does not remain
  null: the select handler and the create path set it.
\<close>

theorem headless_draft_create:
  assumes "editorDisabled (state w)" and "isSelection sel"
  shows "host_calls (trace (handleSelect \<lparr>selection = Some sel, element = el\<rparr> w)) =
     host_calls (trace w) @
       [OnAnnotationCreated
          (sel\<lparr>bodies := map (\<lambda>b. b\<lparr>draft := None\<rparr>) (bodies sel), isSelection := False,
                oid := next_oid w + 2\<rparr>) ArgNull] \<and>
   filter (\<lambda>e. \<not> is_commit e)
       (drop (length (trace w)) (trace (handleSelect \<lparr>selection = Some sel, element = el\<rparr> w))) =
     [HlAddOrUpdateAnnotation
        (sel\<lparr>bodies := map (\<lambda>b. b\<lparr>draft := None\<rparr>) (bodies sel), isSelection := False,
              oid := next_oid w + 2\<rparr>) None,
      Host (OnAnnotationCreated
        (sel\<lparr>bodies := map (\<lambda>b. b\<lparr>draft := None\<rparr>) (bodies sel), isSelection := False,
              oid := next_oid w + 2\<rparr>) ArgNull)] \<and>
   (\<forall>b \<in> set (map (\<lambda>b. b\<lparr>draft := None\<rparr>) (bodies sel)). draft b = None) \<and>
   \<not> editor_open (state (handleSelect \<lparr>selection = Some sel, element = el\<rparr> w)) \<and>
   selectedAnnotation (state (handleSelect \<lparr>selection = Some sel, element = el\<rparr> w)) \<noteq> None"
  using assms
  by (simp add: handleSelect_def onHeadlessSelect_def undraft_def
      clone_with_body_def toAnnotation_def onCreateOrUpdateAnnotation_def clone_def call_defs
      host_calls_append editor_open_def Let_def props_method_def)

theorem headless_draft_create_witness:
  "editorDisabled (state ex_init_headless) \<and> isSelection ex_sel \<and>
   bodies ex_sel = [\<lparr>draft = Some True, content = [(''value'', ''draft note'')]\<rparr>, ex_note] \<and>
   host_calls (trace ex_headless_draft) =
     [OnAnnotationCreated
        (ex_sel\<lparr>bodies := [\<lparr>draft = None, content = [(''value'', ''draft note'')]\<rparr>, ex_note],
                isSelection := False, oid := 12\<rparr>) ArgNull] \<and>
   \<not> editor_open (state ex_headless_draft)"
  using headless_draft_create [of ex_init_headless ex_sel "Some (Span ''local-9'')"]
  by (simp add: ex_headless_draft_def ex_defs)

section \<open>Payloads of the host callbacks\<close>

text \<open>
  C8, as the specification states it, fails. The annotation that the create path hands to
  \<open>onAnnotationCreated\<close> is the very object it has just stored in the Highlight Engine and
  then stores in \<open>selectedAnnotation\<close>; and delete hands \<open>onAnnotationDeleted\<close> the object
  it was called with, here the engine's own object, which is no clone.
\<close>

theorem host_payload_counterexample:
  "host_calls (trace (onCreateOrUpdateAnnotation MethodCreated ex_a None ex_init)) =
     [OnAnnotationCreated (ex_a\<lparr>oid := 10\<rparr>) ArgNull] \<and>
   selectedAnnotation (state (onCreateOrUpdateAnnotation MethodCreated ex_a None ex_init)) =
     Some (ex_a\<lparr>oid := 10\<rparr>) \<and>
   hl_annotations (highlighter (onCreateOrUpdateAnnotation MethodCreated ex_a None ex_init)) =
     [ex_a\<lparr>oid := 10\<rparr>] \<and>
   \<not> detached (OnAnnotationCreated (ex_a\<lparr>oid := 10\<rparr>) ArgNull)
        (onCreateOrUpdateAnnotation MethodCreated ex_a None ex_init) \<and>
   host_calls (trace (onDeleteAnnotation (ex_a\<lparr>oid := 10\<rparr>) ex_a_selected)) =
     host_calls (trace ex_a_selected) @ [OnAnnotationDeleted (ex_a\<lparr>oid := 10\<rparr>)] \<and>
   next_oid ex_a_selected = 16 \<and>
   \<not> cloned_since ex_a_selected (OnAnnotationDeleted (ex_a\<lparr>oid := 10\<rparr>))"
  by (simp add: onCreateOrUpdateAnnotation_def clone_def call_defs props_method_def
      hl_addOrUpdateAnnotation_def hl_present_def hl_findAnnotationSpans_def first_def Let_def
      detached_def stored_def cloned_since_def onDeleteAnnotation_def clearState_def
      host_calls_append ex_a_selected_parts ex_defs)

lemma rl_addOrUpdateRelation_set:
  "x \<in> set (rl_relations (rl_addOrUpdateRelation r previous l)) \<Longrightarrow> x = r \<or> x \<in> set (rl_relations l)"
  by (auto simp: rl_addOrUpdateRelation_def split: if_splits)

lemma select_existing_calls:
  "\<not> isSelection sel \<Longrightarrow>
   host_calls (trace (handleSelect \<lparr>selection = Some sel, element = el\<rparr> w)) =
     host_calls (trace w) @ [OnAnnotationSelected (sel\<lparr>oid := next_oid w\<rparr>) el]"
  by (simp add: handleSelect_def onNormalSelect_def onHeadlessSelect_def clone_def call_defs
      host_calls_append Let_def)

lemma select_existing_stored:
  "\<not> isSelection sel \<Longrightarrow>
   set (stored (handleSelect \<lparr>selection = Some sel, element = el\<rparr> w)) \<subseteq> insert sel (set (stored w))"
  by (auto simp add: handleSelect_def onNormalSelect_def onHeadlessSelect_def clone_def call_defs
      Let_def stored_def split: option.splits)

lemma relation_confirm_stored:
  "set (stored (onCreateOrUpdateRelation r previous w)) \<subseteq> insert (rel_annotation r) (set (stored w))"
  by (auto simp add: onCreateOrUpdateRelation_def closeRelationsEditor_def clone_def call_defs
      Let_def stored_def split: option.splits dest!: rl_addOrUpdateRelation_set)

text \<open>
  C8, amended. \<open>onAnnotationSelected\<close> receives a clone of the selected annotation, and the
  relation editor's confirm hands \<open>onAnnotationCreated\<close> and \<open>onAnnotationUpdated\<close> clones
  of the wrapped annotations: these payloads are allocated by the call and are none of
  the objects held by the Highlight Engine, the Relation Layer or the controller state.
  The annotation create/update path passes a clone of its argument that is the same
  object it stores in the Highlight Engine and in \<open>selectedAnnotation\<close>, together with a
  clone of \<open>previous\<close> when there is one. \<open>onAnnotationDeleted\<close> (annotation and relation
  delete) and \<open>onCancelSelected\<close> receive the object the operation was called with.
\<close>

theorem host_payloads:
  assumes "objects_allocated w"
  shows
  "(\<not> isSelection sel \<and> oid sel < next_oid w \<longrightarrow>
      host_calls (trace (handleSelect \<lparr>selection = Some sel, element = el\<rparr> w)) =
        host_calls (trace w) @ [OnAnnotationSelected (sel\<lparr>oid := next_oid w\<rparr>) el] \<and>
      cloned_since w (OnAnnotationSelected (sel\<lparr>oid := next_oid w\<rparr>) el) \<and>
      detached (OnAnnotationSelected (sel\<lparr>oid := next_oid w\<rparr>) el)
        (handleSelect \<lparr>selection = Some sel, element = el\<rparr> w)) \<and>
   (oid (rel_annotation r) < next_oid w \<longrightarrow>
      (\<forall>c \<in> set (drop (length (host_calls (trace w)))
                    (host_calls (trace (onCreateOrUpdateRelation r previous w)))).
          cloned_since w c \<and> detached c (onCreateOrUpdateRelation r previous w))) \<and>
   host_calls (trace (onCreateOrUpdateAnnotation m a prev w)) =
     host_calls (trace w) @
       [props_method m (a\<lparr>oid := next_oid w\<rparr>)
          (case prev of Some p \<Rightarrow> ArgAnnotation (p\<lparr>oid := Suc (next_oid w)\<rparr>) | None \<Rightarrow> ArgNull)] \<and>
   selectedAnnotation (state (onCreateOrUpdateAnnotation m a prev w)) = Some (a\<lparr>oid := next_oid w\<rparr>) \<and>
   a\<lparr>oid := next_oid w\<rparr> \<in> set (hl_annotations (highlighter (onCreateOrUpdateAnnotation m a prev w))) \<and>
   host_calls (trace (onDeleteAnnotation a w)) = host_calls (trace w) @ [OnAnnotationDeleted a] \<and>
   host_calls (trace (onDeleteRelation r w)) = host_calls (trace w) @ [OnAnnotationDeleted (rel_annotation r)] \<and>
   host_calls (trace (onCancelAnnotation c w)) = host_calls (trace w) @ [OnCancelSelected c]"
proof -
  have alloc: "\<And>x. x \<in> set (stored w) \<Longrightarrow> oid x < next_oid w"
    using assms by (simp add: objects_allocated_def)
  have sel: "\<not> isSelection sel \<and> oid sel < next_oid w \<longrightarrow>
      host_calls (trace (handleSelect \<lparr>selection = Some sel, element = el\<rparr> w)) =
        host_calls (trace w) @ [OnAnnotationSelected (sel\<lparr>oid := next_oid w\<rparr>) el] \<and>
      cloned_since w (OnAnnotationSelected (sel\<lparr>oid := next_oid w\<rparr>) el) \<and>
      detached (OnAnnotationSelected (sel\<lparr>oid := next_oid w\<rparr>) el)
        (handleSelect \<lparr>selection = Some sel, element = el\<rparr> w)"
  proof (intro impI, elim conjE)
    assume ns: "\<not> isSelection sel" and lt: "oid sel < next_oid w"
    have "\<And>x. x \<in> set (stored (handleSelect \<lparr>selection = Some sel, element = el\<rparr> w)) \<Longrightarrow> oid x < next_oid w"
      using select_existing_stored [OF ns, of el w] alloc lt by auto
    then have "detached (OnAnnotationSelected (sel\<lparr>oid := next_oid w\<rparr>) el)
        (handleSelect \<lparr>selection = Some sel, element = el\<rparr> w)"
      by (fastforce simp: detached_def)
    then show "host_calls (trace (handleSelect \<lparr>selection = Some sel, element = el\<rparr> w)) =
        host_calls (trace w) @ [OnAnnotationSelected (sel\<lparr>oid := next_oid w\<rparr>) el] \<and>
      cloned_since w (OnAnnotationSelected (sel\<lparr>oid := next_oid w\<rparr>) el) \<and>
      detached (OnAnnotationSelected (sel\<lparr>oid := next_oid w\<rparr>) el)
        (handleSelect \<lparr>selection = Some sel, element = el\<rparr> w)"
      using select_existing_calls [OF ns] by (simp add: cloned_since_def)
  qed
  have rel: "oid (rel_annotation r) < next_oid w \<longrightarrow>
      (\<forall>c \<in> set (drop (length (host_calls (trace w)))
                    (host_calls (trace (onCreateOrUpdateRelation r previous w)))).
          cloned_since w c \<and> detached c (onCreateOrUpdateRelation r previous w))"
  proof
    assume lt: "oid (rel_annotation r) < next_oid w"
    have st: "\<And>x. x \<in> set (stored (onCreateOrUpdateRelation r previous w)) \<Longrightarrow> oid x < next_oid w"
      using relation_confirm_stored [of r previous w] alloc lt by auto
    have calls: "drop (length (host_calls (trace w)))
                    (host_calls (trace (onCreateOrUpdateRelation r previous w))) =
       (if bodies (rel_annotation previous) = []
        then [OnAnnotationCreated ((rel_annotation r)\<lparr>oid := next_oid w\<rparr>)
               (ArgOverrideRelationId (ann_id (rel_annotation r)))]
        else [OnAnnotationUpdated ((rel_annotation r)\<lparr>oid := next_oid w\<rparr>)
               (ArgAnnotation ((rel_annotation previous)\<lparr>oid := Suc (next_oid w)\<rparr>))])"
      by (simp add: onCreateOrUpdateRelation_def closeRelationsEditor_def clone_def call_defs
          host_calls_append Let_def)
    show "\<forall>c \<in> set (drop (length (host_calls (trace w)))
                    (host_calls (trace (onCreateOrUpdateRelation r previous w)))).
          cloned_since w c \<and> detached c (onCreateOrUpdateRelation r previous w)"
      proof -
      have fresh: "n \<notin> oid ` set (stored (onCreateOrUpdateRelation r previous w))"
        if "next_oid w \<le> n" for n
      proof
        assume "n \<in> oid ` set (stored (onCreateOrUpdateRelation r previous w))"
        then obtain x where "x \<in> set (stored (onCreateOrUpdateRelation r previous w))" and "n = oid x"
          by blast
        with st [of x] that show False by simp
      qed
      show ?thesis
        unfolding calls by (simp add: cloned_since_def detached_def fresh)
    qed
  qed
  have upd: "host_calls (trace (onCreateOrUpdateAnnotation m a prev w)) =
     host_calls (trace w) @
       [props_method m (a\<lparr>oid := next_oid w\<rparr>)
          (case prev of Some p \<Rightarrow> ArgAnnotation (p\<lparr>oid := Suc (next_oid w)\<rparr>) | None \<Rightarrow> ArgNull)] \<and>
   selectedAnnotation (state (onCreateOrUpdateAnnotation m a prev w)) = Some (a\<lparr>oid := next_oid w\<rparr>) \<and>
   a\<lparr>oid := next_oid w\<rparr> \<in> set (hl_annotations (highlighter (onCreateOrUpdateAnnotation m a prev w)))"
    by (cases prev) (simp_all add: onCreateOrUpdateAnnotation_def clone_def call_defs
        host_calls_append Let_def hl_addOrUpdateAnnotation_mem)
  have rest: "host_calls (trace (onDeleteAnnotation a w)) = host_calls (trace w) @ [OnAnnotationDeleted a] \<and>
   host_calls (trace (onDeleteRelation r w)) = host_calls (trace w) @ [OnAnnotationDeleted (rel_annotation r)] \<and>
   host_calls (trace (onCancelAnnotation c w)) = host_calls (trace w) @ [OnCancelSelected c]"
    by (simp add: onDeleteAnnotation_def onDeleteRelation_def onCancelAnnotation_def
        closeRelationsEditor_def clearState_def call_defs host_calls_append)
  from sel rel upd rest show ?thesis by blast
qed

theorem host_payloads_witness:
  "objects_allocated ex_related \<and>
   \<not> isSelection (ex_a\<lparr>oid := 10\<rparr>) \<and> oid (ex_a\<lparr>oid := 10\<rparr>) < next_oid ex_related \<and>
   detached (OnAnnotationSelected (ex_a\<lparr>oid := 15\<rparr>) (Some (Span ''local-1''))) ex_a_selected \<and>
   oid (rel_annotation ex_r1) < next_oid ex_related \<and>
   drop (length (host_calls (trace ex_related)))
     (host_calls (trace (onCreateOrUpdateRelation ex_r1 ex_r1_empty ex_related))) =
     [OnAnnotationCreated ((rel_annotation ex_r1)\<lparr>oid := 15\<rparr>) (ArgOverrideRelationId ''rel-1'')] \<and>
   detached (OnAnnotationCreated ((rel_annotation ex_r1)\<lparr>oid := 15\<rparr>) (ArgOverrideRelationId ''rel-1''))
     (onCreateOrUpdateRelation ex_r1 ex_r1_empty ex_related)"
proof -
  have alloc: "objects_allocated ex_related"
    by (simp add: objects_allocated_def stored_def ex_related_parts ex_defs)
  have calls: "drop (length (host_calls (trace ex_related)))
     (host_calls (trace (onCreateOrUpdateRelation ex_r1 ex_r1_empty ex_related))) =
     [OnAnnotationCreated ((rel_annotation ex_r1)\<lparr>oid := 15\<rparr>) (ArgOverrideRelationId ''rel-1'')]"
    by (simp add: onCreateOrUpdateRelation_def closeRelationsEditor_def clone_def call_defs
        host_calls_append Let_def ex_related_parts ex_defs)
  from host_payloads [OF alloc, where sel = "ex_a\<lparr>oid := 10\<rparr>" and el = "Some (Span ''local-1'')"
      and r = ex_r1 and previous = ex_r1_empty] alloc calls
  show ?thesis
    by (simp add: ex_a_selected_def ex_related_parts ex_defs)
qed

section \<open>At most one editor\<close>

lemma ex_escaped_parts:
  "state ex_escaped = state ex_init"
  "sh_enabled (selectionHandler ex_escaped)"
  "rl_drawing (relationsLayer ex_escaped)"
  by (simp_all add: ex_escaped_def setMode_def handleEscape_def onCancelAnnotation_def clearState_def
      call_defs ex_annotated_eq ex_defs)

text \<open>
  C1, as the specification states it, fails. In relations mode Escape enables the
  Selection Detector again; a selection made then opens the annotation editor, and the
  edit-relation event of the connection drawn next sets \<open>selectedRelation\<close> without
  clearing \<open>selectedAnnotation\<close>: both are non-null and both editors are rendered.
\<close>

theorem both_editors_counterexample:
  "sh_enabled (selectionHandler ex_escaped) \<and>
   rl_drawing (relationsLayer ex_escaped) \<and>
   selectedAnnotation (state ex_both_selected) = Some ex_sel \<and>
   selectedRelation (state ex_both_selected) = Some ex_r1 \<and>
   annotation_editor_rendered (state ex_both_selected) \<and>
   relation_editor_rendered (state ex_both_selected)"
  by (simp add: ex_both_selected_def ex_escaped_parts onEditRelation_def handleSelect_def
      onNormalSelect_def call_defs Let_def annotation_editor_rendered_def relation_editor_rendered_def
      editor_open_def ex_defs)

lemma frame_tasks_exclusive:
  "committed_states_exclusive w \<Longrightarrow> committed_states_exclusive (fold run_task ts w)"
proof (induction ts arbitrary: w)
  case Nil
  then show ?case by simp
next
  case (Cons t ts)
  have "committed_states_exclusive (run_task t w)"
    using Cons.prems by (cases t) (simp add: committed_states_exclusive_def call_defs)
  then show ?case using Cons.IH by simp
qed

lemma step_exclusive:
  "committed_states_exclusive w \<Longrightarrow> admitted x w \<Longrightarrow> committed_states_exclusive (apply_op x w)"
proof (cases x)
  case AnimationFrame
  assume "committed_states_exclusive w"
  then have "committed_states_exclusive (w\<lparr>frames := []\<rparr>)"
    by (simp add: committed_states_exclusive_def)
  then show ?thesis
    using AnimationFrame by (simp add: animationFrame_def frame_tasks_exclusive)
qed (auto simp: committed_states_exclusive_def exclusive_def handler_defs call_defs Let_def
      split: option.splits prod.splits list.splits if_splits)

text \<open>
  C1, amended. At every state the controller commits on the way to a state reachable from
  the initial one through its operations (select, edit-relation, create/update, delete,
  cancel and Escape, \<open>setMode\<close>, the overrides, the relation editor's events and the
  external API), \<open>selectedAnnotation\<close> and \<open>selectedRelation\<close> are not both non-null,
  provided that an operation that selects an annotation (a select event carrying a
  selection, annotation create/update, \<open>selectAnnotation\<close> with an argument) arrives only
  while no relation is selected and that the edit-relation event arrives only while no
  annotation is selected. The edit-relation path itself, triggered by \<open>createRelation\<close> or
  \<open>selectRelation\<close>, only sets \<open>selectedRelation\<close>: it leaves \<open>selectedAnnotation\<close> as it is.
\<close>

theorem exclusive_when_admitted:
  assumes "reachable c w"
  shows "exclusive (state w) \<and> (\<forall>e \<in> set (trace w). committed_exclusive e) \<and>
         state (onEditRelation r w) = (state w)\<lparr>selectedRelation := Some r\<rparr>"
proof -
  from assms have "committed_states_exclusive w"
  proof (induction rule: reachable.induct)
    case start
    show ?case by (simp add: committed_states_exclusive_def exclusive_def init_world_def)
  next
    case (step w x)
    then show ?case by (simp add: step_exclusive)
  qed
  then show ?thesis
    by (simp add: committed_states_exclusive_def onEditRelation_def call_defs)
qed

theorem exclusive_when_admitted_witness:
  "reachable ex_cfg (apply_op (EditRelation ex_r1) (apply_op (SetMode ''RELATIONS'') (init_world ex_cfg))) \<and>
   selectedRelation (state (apply_op (EditRelation ex_r1) (apply_op (SetMode ''RELATIONS'') (init_world ex_cfg)))) =
     Some ex_r1 \<and>
   exclusive (state (apply_op (EditRelation ex_r1) (apply_op (SetMode ''RELATIONS'') (init_world ex_cfg)))) \<and>
   committed_exclusive
     (last (trace (apply_op (EditRelation ex_r1) (apply_op (SetMode ''RELATIONS'') (init_world ex_cfg)))))"
proof -
  have r1: "reachable ex_cfg (apply_op (SetMode ''RELATIONS'') (init_world ex_cfg))"
    by (rule reachable.step [OF reachable.start]) simp
  have r2: "reachable ex_cfg (apply_op (EditRelation ex_r1) (apply_op (SetMode ''RELATIONS'') (init_world ex_cfg)))"
    by (rule reachable.step [OF r1]) (simp add: setMode_def clearState_def call_defs init_world_def)
  from exclusive_when_admitted [OF r2] r2 show ?thesis
    by (simp add: setMode_def clearState_def onEditRelation_def call_defs init_world_def)
qed

section \<open>Overriding the id of an annotation\<close>










lemma clone_all_fresh:
  "a \<in> set (fst (clone_all xs w)) \<Longrightarrow> next_oid w \<le> oid a"
proof (induction xs arbitrary: w)
  case Nil
  then show ?case by simp
next
  case (Cons x xs)
  let ?w1 = "w\<lparr>next_oid := Suc (next_oid w)\<rparr>"
  from Cons.prems have "a = x\<lparr>oid := next_oid w\<rparr> \<or> a \<in> set (fst (clone_all xs ?w1))"
    by (auto simp: clone_def split: prod.splits)
  then show ?case
  proof
    assume "a = x\<lparr>oid := next_oid w\<rparr>"
    then show ?thesis by simp
  next
    assume "a \<in> set (fst (clone_all xs ?w1))"
    from Cons.IH [OF this] show ?thesis by simp
  qed
qed

lemma getAnnotations_fresh:
  "a \<in> set (fst (getAnnotations w)) \<Longrightarrow> next_oid w \<le> oid a"
  by (simp add: getAnnotations_def clone_all_fresh)

end
